theory Spec2Isabelle
  imports Complex_Main "HOL-Library.Word"
begin

section \<open>VoiceFlight: the game loop of \<open>src/app/components/Game.tsx\<close>\<close>

text \<open>
  The embedding follows the second (current) component of \<open>Game.tsx\<close>: \<open>startGame\<close>,
  \<open>gameLoop\<close>, \<open>gameOver\<close> and the cleanup of the audio effect. JavaScript numbers are
  modelled as \<^typ>\<open>real\<close> (rounding of doubles is not modelled), \<open>canvas.width\<close> and
  \<open>canvas.height\<close> as \<^typ>\<open>nat\<close> (they are unsigned integers in the DOM), \<open>Date.now()\<close>
  as \<^typ>\<open>int\<close>, the \<open>Uint8Array\<close> of frequency magnitudes as an \<^typ>\<open>8 word list\<close>.
  Mutation of \<open>gameLoopRef.current\<close>, of the React state and of the browser's animation
  frame list is explicit state passing on the record \<open>world\<close>. What the tick reads from
  outside (the canvas, the analyser's data, the clock, \<open>Math.random()\<close>) is the record
  \<open>env\<close>. Painting is a list of drawing commands, in the order they are issued.
\<close>

subsection \<open>Data\<close>

text \<open>\<open>game.plane\<close>: fields \<open>x\<close>, \<open>y\<close>, \<open>velocity\<close>, \<open>rotation\<close>.\<close>

record Plane =
  plane_x :: real
  plane_y :: real
  velocity :: real
  rotation :: real

text \<open>\<open>interface Obstacle\<close>: fields \<open>x\<close>, \<open>gapY\<close>, \<open>gapHeight\<close>, \<open>peaks\<close>.\<close>

record Obstacle =
  obs_x :: real
  gapY :: real
  gapHeight :: real
  peaks :: "real list"

text \<open>\<open>interface GameLoop\<close>. \<open>bgOffset\<close> is \<open>None\<close> when it is \<open>NaN\<close> (after \<open>% 0\<close>).\<close>

record GameLoop =
  plane :: Plane
  obstacles :: "Obstacle list"
  lastObstacleTime :: int
  bgOffset :: "nat option"

text \<open>\<open>interface GameState\<close> (the React state).\<close>

record GameState =
  isPlaying :: bool
  score :: nat
  highScore :: nat
  isImageLoaded :: bool

text \<open>The \<open>planeHitbox\<close> object literal: fields \<open>x\<close>, \<open>y\<close>, \<open>width\<close>, \<open>height\<close>.\<close>

record Hitbox =
  hb_x :: real
  hb_y :: real
  hb_width :: real
  hb_height :: real

text \<open>
  The calls on the 2D context, by what they paint. Whether a sprite or its flat-coloured
  fallback is painted is not recorded: both have the same geometry.
\<close>

datatype draw =
    ClearRect
  | FillBackground
  | CollisionPoint real real
  | DrawBuilding real real real nat
  | DrawPlane real real real
  | DrawClouds "nat option"
  | DebugText int
  | Explosion real real
  | RedFrame

text \<open>
  The audio pipeline held in the React state (\<open>mediaStream\<close>, \<open>audioContext\<close>): whether
  its microphone tracks were stopped and its context closed.
\<close>

record AudioPipeline =
  tracksStopped :: bool
  contextClosed :: bool

text \<open>
  Everything a tick can change: \<open>gameLoopRef.current\<close>, the React \<open>gameState\<close>,
  \<open>animationFrameRef.current\<close> (\<open>None\<close> is \<open>undefined\<close>), the browser's list of pending
  animation frame callbacks with its handle counter, the pending \<open>setTimeout(gameOver, 750)\<close>
  timers, the number of times the crash sound was started, the canvas content, and the
  audio pipeline.
\<close>

record world =
  game :: GameLoop
  gameState :: GameState
  animationFrameRef :: "nat option"
  rafCallbacks :: "nat list"
  rafCounter :: nat
  gameOverTimers :: nat
  crashSoundPlays :: nat
  painted :: "draw list"
  audio :: "AudioPipeline option"

text \<open>
  What a tick reads: \<open>canvasRef.current\<close> (its width and height), whether
  \<open>getContext('2d')\<close> gives a context, the \<open>analyser\<close> of the running closure with the
  frequency data it delivers on this tick, \<open>Date.now()\<close>, the two \<open>Math.random()\<close> results
  a spawn consumes (gap position first, \<open>generateBuilding\<close> second), and whether
  \<open>crashSoundRef.current\<close> and \<open>explosionImageRef.current\<close> are set.
\<close>

record env =
  canvas :: "(nat \<times> nat) option"
  ctx2d :: bool
  analyser :: "8 word list option"
  now :: int
  random1 :: real
  random2 :: real
  crashSound :: bool
  explosionImage :: bool

text \<open>How a call of \<open>gameLoop\<close> ends.\<close>

datatype outcome =
    Skipped    \<comment> \<open>early \<open>return\<close>: no canvas, no analyser or no context\<close>
  | Threw      \<comment> \<open>an exception, caught and logged by the \<open>try\<close>\<close>
  | Collided   \<comment> \<open>the \<open>if (collision)\<close> branch, which returns before the score\<close>
  | Survived   \<comment> \<open>the score update was reached\<close>

subsection \<open>The browser's animation frames\<close>

text \<open>
  \<open>requestAnimationFrame\<close> increments the handle counter, appends the handle to the pending
  callbacks and returns it; \<open>cancelAnimationFrame\<close> removes a handle from the list.
\<close>

definition requestAnimationFrame :: "world \<Rightarrow> nat \<times> world" where
  "requestAnimationFrame w =
     (let h = rafCounter w + 1
      in (h, w\<lparr>rafCounter := h, rafCallbacks := rafCallbacks w @ [h]\<rparr>))"

definition cancelAnimationFrame :: "nat \<Rightarrow> world \<Rightarrow> world" where
  "cancelAnimationFrame h w = w\<lparr>rafCallbacks := removeAll h (rafCallbacks w)\<rparr>"

text \<open>
  \<open>if (animationFrameRef.current) { cancelAnimationFrame(...); animationFrameRef.current =
  undefined; }\<close>: \<open>undefined\<close> and \<open>0\<close> are falsy.
\<close>

definition cancelPending :: "world \<Rightarrow> world" where
  "cancelPending w =
     (case animationFrameRef w of
        None \<Rightarrow> w
      | Some h \<Rightarrow>
          if h = 0 then w
          else (cancelAnimationFrame h w)\<lparr>animationFrameRef := None\<rparr>)"

subsection \<open>Volume Sampler (lines 686-694)\<close>

text \<open>
  \<open>dataArray.reduce((a, b) => a + b) / dataArray.length\<close>, the noise floor and the gain.
  \<open>reduce\<close> without an initial value throws on an empty array: the caller tests for it.
\<close>

definition sampleVolume :: "8 word list \<Rightarrow> real" where
  "sampleVolume dataArray =
     (let rawVolume = real (sum_list (map unat dataArray)) / real (length dataArray);
          noiseFloor = 10;
          normalizedVolume = max 0 (rawVolume - noiseFloor)
      in normalizedVolume * 0.8)"

subsection \<open>Flight Dynamics (lines 696-709)\<close>

definition flightDynamics :: "nat \<Rightarrow> real \<Rightarrow> Plane \<Rightarrow> Plane" where
  "flightDynamics canvas_height volume p =
     (let gravity = 0.25;
          lift = max 0 ((volume - 3) * 0.2);
          v1 = velocity p + gravity;
          v2 = v1 - lift;
          v3 = v2 * 0.97;
          v4 = max (- 6) (min 6 v3);
          y1 = plane_y p + v4;
          y2 = max 20 (min (real canvas_height - 20) y1);
          targetRotation = v4 * 0.15;
          r = rotation p + (targetRotation - rotation p) * 0.1
      in p\<lparr>velocity := v4, plane_y := y2, rotation := r\<rparr>)"

subsection \<open>Boundary check and the obstacle pass (lines 632-681)\<close>

definition planeHitbox :: "Plane \<Rightarrow> Hitbox" where
  "planeHitbox p =
     \<lparr>hb_x = plane_x p - 40, hb_y = plane_y p - 20, hb_width = 80, hb_height = 40\<rparr>"

text \<open>\<open>planeHitbox.y <= 0 || planeHitbox.y + planeHitbox.height >= canvas.height\<close>\<close>

definition hitsBoundary :: "Hitbox \<Rightarrow> nat \<Rightarrow> bool" where
  "hitsBoundary hb canvas_height =
     (hb_y hb \<le> 0 \<or> hb_y hb + hb_height hb \<ge> real canvas_height)"

text \<open>
  One call of the \<open>filter\<close> callback: the obstacle after \<open>obstacle.x -= 3\<close>, what it paints
  (the building, then a red mark for each of the two hits), whether it sets \<open>collision\<close>,
  and its return value \<open>obstacle.x > -50\<close>.
\<close>

definition obstacleCallback ::
  "Hitbox \<Rightarrow> real \<Rightarrow> nat \<Rightarrow> Obstacle \<Rightarrow> Obstacle \<times> draw list \<times> bool \<times> bool" where
  "obstacleCallback hb px canvas_height ob =
     (let ob' = ob\<lparr>obs_x := obs_x ob - 3\<rparr>;
          building = [DrawBuilding (obs_x ob') (gapY ob') (gapHeight ob') canvas_height];
          overlap = (hb_x hb + hb_width hb > obs_x ob' \<and> hb_x hb < obs_x ob' + 50);
          above = (overlap \<and> hb_y hb < gapY ob');
          below = (overlap \<and> hb_y hb + hb_height hb > gapY ob' + gapHeight ob');
          marks = (if above then [CollisionPoint px (hb_y hb)] else [])
                @ (if below then [CollisionPoint px (hb_y hb + hb_height hb)] else [])
      in (ob', building @ marks, above \<or> below, obs_x ob' > - 50))"

text \<open>
  \<open>game.obstacles.filter(callback)\<close>, the callbacks run in list order; \<open>collision\<close> and the
  canvas are threaded through.
\<close>

fun filterObstacles ::
  "Hitbox \<Rightarrow> real \<Rightarrow> nat \<Rightarrow> Obstacle list \<Rightarrow> bool \<Rightarrow> draw list
     \<Rightarrow> Obstacle list \<times> bool \<times> draw list" where
  "filterObstacles hb px canvas_height [] collision cv = ([], collision, cv)"
| "filterObstacles hb px canvas_height (ob # rest) collision cv =
     (case obstacleCallback hb px canvas_height ob of
        (ob', ds, hit, keep) \<Rightarrow>
          (case filterObstacles hb px canvas_height rest (collision \<or> hit) (cv @ ds) of
             (kept, c, cv') \<Rightarrow> (if keep then ob' # kept else kept, c, cv')))"

text \<open>
  Lines 632-681: the boundary check with its red mark, and, only when it did not fire,
  the obstacle pass. Returns the game, the \<open>collision\<close> flag and the canvas.
\<close>

definition collisionStage :: "nat \<Rightarrow> GameLoop \<Rightarrow> draw list \<Rightarrow> GameLoop \<times> bool \<times> draw list" where
  "collisionStage canvas_height g cv =
     (let hb = planeHitbox (plane g)
      in if hitsBoundary hb canvas_height
         then (g, True,
               cv @ [CollisionPoint (plane_x (plane g))
                       (if hb_y hb \<le> 0 then hb_y hb else hb_y hb + hb_height hb)])
         else (case filterObstacles hb (plane_x (plane g)) canvas_height (obstacles g) False cv of
                 (obs, c, cv') \<Rightarrow> (g\<lparr>obstacles := obs\<rparr>, c, cv')))"

subsection \<open>Spawning (lines 721-733, and lines 585-593 of \<open>startGame\<close>)\<close>

text \<open>\<open>generateBuilding\<close>: one height, \<open>Math.random() * 150 + 100\<close>.\<close>

definition generateBuilding :: "real \<Rightarrow> real list" where
  "generateBuilding r = [r * 150 + 100]"

text \<open>
  The object pushed at both spawn sites, whose code is the same: \<open>gap = 250\<close>,
  \<open>gapPosition = Math.random() * (canvas.height - gap - 100) + 50\<close>, \<open>x: canvas.width\<close>.
\<close>

definition newObstacle :: "nat \<Rightarrow> nat \<Rightarrow> real \<Rightarrow> real \<Rightarrow> Obstacle" where
  "newObstacle canvas_width canvas_height r1 r2 =
     (let gap = 250;
          gapPosition = r1 * (real canvas_height - gap - 100) + 50
      in \<lparr>obs_x = real canvas_width, gapY = gapPosition, gapHeight = gap,
          peaks = generateBuilding r2\<rparr>)"

definition spawnStage :: "env \<Rightarrow> nat \<Rightarrow> nat \<Rightarrow> GameLoop \<Rightarrow> GameLoop" where
  "spawnStage e canvas_width canvas_height g =
     (if now e - lastObstacleTime g > 2000
      then g\<lparr>obstacles := obstacles g @ [newObstacle canvas_width canvas_height (random1 e) (random2 e)],
             lastObstacleTime := now e\<rparr>
      else g)"

subsection \<open>The tick: \<open>gameLoop\<close> (lines 617-784)\<close>

text \<open>\<open>game.bgOffset = (game.bgOffset + 2) % canvas.width\<close>; \<open>% 0\<close> is \<open>NaN\<close>, and stays.\<close>

definition scrollBackground :: "nat \<Rightarrow> nat option \<Rightarrow> nat option" where
  "scrollBackground canvas_width b =
     (case b of
        None \<Rightarrow> None
      | Some n \<Rightarrow> if canvas_width = 0 then None else Some ((n + 2) mod canvas_width))"

text \<open>\<open>Math.round\<close>: to the nearest integer, halves upwards.\<close>

definition mathRound :: "real \<Rightarrow> int" where
  "mathRound v = \<lfloor>v + 1 / 2\<rfloor>"

text \<open>
  The \<open>if (collision)\<close> branch (lines 740-776): crash sound, explosion, red frame, the
  pending frame cancelled, \<open>gameOver\<close> scheduled after 750 ms.
\<close>

definition collisionBranch :: "env \<Rightarrow> world \<Rightarrow> world" where
  "collisionBranch e w =
     (let p = plane (game w);
          w1 = (if crashSound e then w\<lparr>crashSoundPlays := crashSoundPlays w + 1\<rparr> else w);
          w2 = w1\<lparr>painted := painted w1
                  @ (if explosionImage e then [Explosion (plane_x p - 150 / 2) (plane_y p - 150 / 2)] else [])
                  @ [RedFrame]\<rparr>;
          w3 = cancelPending w2
      in w3\<lparr>gameOverTimers := gameOverTimers w3 + 1\<rparr>)"

text \<open>
  The body of the \<open>try\<close> (lines 627-779), on a canvas of the given size and the analyser's
  data. The stages in the order of the source: background, boundary check and obstacle
  pass, the plane drawn, the volume sampled, the dynamics, the background scrolled and the
  clouds drawn, the spawn, the debug text, and the collision branch or the score.
\<close>

definition tickBody :: "env \<Rightarrow> nat \<Rightarrow> nat \<Rightarrow> 8 word list \<Rightarrow> world \<Rightarrow> outcome \<times> world" where
  "tickBody e canvas_width canvas_height dataArray w =
     (case collisionStage canvas_height (game w) [ClearRect, FillBackground] of
        (g1, collision, cv1) \<Rightarrow>
          (let p1 = plane g1;
               cv2 = cv1 @ [DrawPlane (plane_x p1) (plane_y p1) (rotation p1)]
           in if dataArray = []
              then (Threw, w\<lparr>game := g1, painted := cv2\<rparr>)
              else
                (let volume = sampleVolume dataArray;
                     g2 = g1\<lparr>plane := flightDynamics canvas_height volume p1\<rparr>;
                     g3 = g2\<lparr>bgOffset := scrollBackground canvas_width (bgOffset g2)\<rparr>;
                     cv3 = cv2 @ [DrawClouds (bgOffset g3)];
                     g4 = spawnStage e canvas_width canvas_height g3;
                     cv4 = cv3 @ [DebugText (mathRound volume)];
                     w1 = w\<lparr>game := g4, painted := cv4\<rparr>
                 in if collision
                    then (Collided, collisionBranch e w1)
                    else (Survived,
                          w1\<lparr>gameState := (gameState w1)\<lparr>score := score (gameState w1) + 1\<rparr>\<rparr>))))"

text \<open>
  \<open>gameLoop\<close>: the next frame is requested first, then the guards, then the body.
\<close>

definition gameLoop :: "env \<Rightarrow> world \<Rightarrow> outcome \<times> world" where
  "gameLoop e w0 =
     (case requestAnimationFrame w0 of
        (h, wr) \<Rightarrow>
          (let w = wr\<lparr>animationFrameRef := Some h\<rparr>
           in case canvas e of
                None \<Rightarrow> (Skipped, w)
              | Some (canvas_width, canvas_height) \<Rightarrow>
                  (case analyser e of
                     None \<Rightarrow> (Skipped, w)
                   | Some dataArray \<Rightarrow>
                       if \<not> ctx2d e then (Skipped, w)
                       else tickBody e canvas_width canvas_height dataArray w)))"

subsection \<open>\<open>startGame\<close>, \<open>gameOver\<close> and the cleanup of the audio effect\<close>

text \<open>
  \<open>startGame\<close> (lines 524-605). When the closure has no analyser the microphone is asked
  for; a refusal throws, the \<open>catch\<close> alerts, and nothing else happens. With a canvas the
  score is reset, \<open>gameLoopRef.current\<close> is replaced, the first obstacle is pushed, a
  pending frame is cancelled (the reference is overwritten, not cleared) and the first
  frame is requested.
\<close>

definition startGame :: "bool \<Rightarrow> env \<Rightarrow> world \<Rightarrow> world" where
  "startGame micGranted e w =
     (if analyser e = None \<and> \<not> micGranted then w
      else
        (let w1 = (if analyser e = None
                   then w\<lparr>audio := Some \<lparr>tracksStopped = False, contextClosed = False\<rparr>\<rparr>
                   else w)
         in case canvas e of
              None \<Rightarrow> w1
            | Some (canvas_width, canvas_height) \<Rightarrow>
                (let w2 = w1\<lparr>gameState := (gameState w1)\<lparr>isPlaying := True, score := 0\<rparr>\<rparr>;
                     g = \<lparr>plane = \<lparr>plane_x = 100, plane_y = real canvas_height / 2,
                                   velocity = 0, rotation = 0\<rparr>,
                          obstacles = [], lastObstacleTime = now e, bgOffset = Some 0\<rparr>;
                     g' = g\<lparr>obstacles := obstacles g
                             @ [newObstacle canvas_width canvas_height (random1 e) (random2 e)]\<rparr>;
                     w3 = w2\<lparr>game := g'\<rparr>;
                     w4 = (case animationFrameRef w3 of
                             None \<Rightarrow> w3
                           | Some h \<Rightarrow> if h = 0 then w3 else cancelAnimationFrame h w3)
                 in case requestAnimationFrame w4 of
                      (h, wr) \<Rightarrow> wr\<lparr>animationFrameRef := Some h\<rparr>)))"

text \<open>\<open>gameOver\<close> (lines 796-806).\<close>

definition gameOver :: "world \<Rightarrow> world" where
  "gameOver w =
     (let w1 = cancelPending w;
          s = gameState w1
      in w1\<lparr>gameState := s\<lparr>isPlaying := False, highScore := max (highScore s) (score s)\<rparr>\<rparr>)"

text \<open>The timer set by the collision branch fires: \<open>gameOver()\<close> runs.\<close>

definition gameOverTimeout :: "world \<Rightarrow> world" where
  "gameOverTimeout w = gameOver (w\<lparr>gameOverTimers := gameOverTimers w - 1\<rparr>)"

text \<open>
  The cleanup returned by the audio effect (lines 401-413). \<open>mediaStream\<close> and
  \<open>audioContext\<close> are the values its closure captured (the effect has no dependencies, so
  they are those of the render that mounted it); the two flags say whether they are set.
  \<open>animationFrameRef.current\<close> is read at the time of the cleanup.
\<close>

definition audioCleanup :: "bool \<Rightarrow> bool \<Rightarrow> world \<Rightarrow> world" where
  "audioCleanup capturedStream capturedContext w =
     (let w1 = (if capturedStream
                then w\<lparr>audio := map_option (\<lambda>a. a\<lparr>tracksStopped := True\<rparr>) (audio w)\<rparr>
                else w);
          w2 = (if capturedContext
                then w1\<lparr>audio := map_option (\<lambda>a. a\<lparr>contextClosed := True\<rparr>) (audio w1)\<rparr>
                else w1)
      in case animationFrameRef w2 of
           None \<Rightarrow> w2
         | Some h \<Rightarrow> if h = 0 then w2 else cancelAnimationFrame h w2)"

subsection \<open>The specification's reading of the dynamics and of the detector\<close>

text \<open>
  Section 4.2 of the specification, step by step, with its constants as parameters:
  gravity, lift threshold and gain, damping, \<open>Vmax\<close>, half height, surface height,
  rotation gain and smoothing.
\<close>

definition spec_clamp :: "real \<Rightarrow> real \<Rightarrow> real \<Rightarrow> real" where
  "spec_clamp lo hi v = max lo (min hi v)"

definition spec_lift :: "real \<Rightarrow> real \<Rightarrow> real \<Rightarrow> real" where
  "spec_lift liftThreshold liftGain volume = max 0 ((volume - liftThreshold) * liftGain)"

definition spec_dynamics ::
  "real \<Rightarrow> real \<Rightarrow> real \<Rightarrow> real \<Rightarrow> real \<Rightarrow> real \<Rightarrow> real \<Rightarrow> real \<Rightarrow> real \<Rightarrow> real \<Rightarrow> Plane \<Rightarrow> Plane" where
  "spec_dynamics gravity liftThreshold liftGain dampingFactor vmax halfHeight surfaceHeight
       rotationGain smoothing volume p =
     (let step1 = velocity p + gravity;
          step2 = step1 - spec_lift liftThreshold liftGain volume;
          step3 = step2 * dampingFactor;
          step4 = spec_clamp (- vmax) vmax step3;
          step5 = spec_clamp halfHeight (surfaceHeight - halfHeight) (plane_y p + step4);
          step6 = rotation p + (step4 * rotationGain - rotation p) * smoothing
      in p\<lparr>velocity := step4, plane_y := step5, rotation := step6\<rparr>)"

text \<open>
  Section 4.4 of the specification as a predicate on a hitbox, a surface height and an
  obstacle collection: the boundary test, then, for an obstacle whose horizontal extent
  (50 wide, as in the source's test) overlaps the hitbox, the two gap tests.
\<close>

definition hitsObstacle :: "Hitbox \<Rightarrow> Obstacle \<Rightarrow> bool" where
  "hitsObstacle hb ob =
     (hb_x hb + hb_width hb > obs_x ob \<and> hb_x hb < obs_x ob + 50 \<and>
      (hb_y hb < gapY ob \<or> hb_y hb + hb_height hb > gapY ob + gapHeight ob))"

definition detectCollision :: "Plane \<Rightarrow> nat \<Rightarrow> Obstacle list \<Rightarrow> bool" where
  "detectCollision p canvas_height obs =
     (hitsBoundary (planeHitbox p) canvas_height \<or> list_ex (hitsObstacle (planeHitbox p)) obs)"

subsection \<open>Auxiliary notions\<close>

text \<open>\<open>obstacle.x -= 3\<close> on one obstacle, and the test \<open>obstacle.x > -50\<close> of the filter.\<close>

definition advance :: "Obstacle \<Rightarrow> Obstacle" where
  "advance ob = ob\<lparr>obs_x := obs_x ob - 3\<rparr>"

definition stays :: "Obstacle \<Rightarrow> bool" where
  "stays ob = (obs_x ob > - 50)"

text \<open>The world as the body of the tick finds it: the next frame already requested.\<close>

definition frameRequested :: "world \<Rightarrow> world" where
  "frameRequested w =
     w\<lparr>rafCounter := rafCounter w + 1, rafCallbacks := rafCallbacks w @ [rafCounter w + 1],
       animationFrameRef := Some (rafCounter w + 1)\<rparr>"

text \<open>
  The browser runs the first pending animation frame callback (it is always \<open>gameLoop\<close>,
  the only function ever requested), having removed it from its list. With nothing
  pending, no tick runs.
\<close>

definition runFrame :: "env \<Rightarrow> world \<Rightarrow> (outcome \<times> world) option" where
  "runFrame e w =
     (case rafCallbacks w of
        [] \<Rightarrow> None
      | h # rest \<Rightarrow> Some (gameLoop e (w\<lparr>rafCallbacks := rest\<rparr>)))"

text \<open>The margins of the specification's gap invariant: 50 above and below the gap.\<close>

definition gapWithinMargins :: "nat \<Rightarrow> Obstacle \<Rightarrow> bool" where
  "gapWithinMargins canvas_height ob =
     (50 \<le> gapY ob \<and> gapY ob + gapHeight ob \<le> real canvas_height - 50)"

subsection \<open>Concrete sessions\<close>

text \<open>
  A running game on the default 800 x 600 canvas, the plane in the middle at rest, no
  obstacle, one frame callback just taken off the browser's list.
\<close>

definition exampleWorld :: world where
  "exampleWorld =
     \<lparr>game = \<lparr>plane = \<lparr>plane_x = 100, plane_y = 300, velocity = 0, rotation = 0\<rparr>,
              obstacles = [], lastObstacleTime = 0, bgOffset = Some 0\<rparr>,
      gameState = \<lparr>isPlaying = True, score = 0, highScore = 0, isImageLoaded = True\<rparr>,
      animationFrameRef = Some 1, rafCallbacks = [], rafCounter = 1,
      gameOverTimers = 0, crashSoundPlays = 0, painted = [],
      audio = Some \<lparr>tracksStopped = False, contextClosed = False\<rparr>\<rparr>"

text \<open>A silent tick, one second after the last spawn.\<close>

definition exampleEnv :: env where
  "exampleEnv =
     \<lparr>canvas = Some (800, 600), ctx2d = True, analyser = Some [0, 0, 0, 0], now = 1000,
      random1 = 1 / 2, random2 = 1 / 2, crashSound = True, explosionImage = True\<rparr>"

text \<open>An obstacle at a given position, its gap from 175 to 425.\<close>

definition exampleObstacle :: "real \<Rightarrow> Obstacle" where
  "exampleObstacle x = \<lparr>obs_x = x, gapY = 175, gapHeight = 250, peaks = [175]\<rparr>"

text \<open>The running game with the plane at a given height and velocity, and given obstacles.\<close>

definition worldWith :: "real \<Rightarrow> real \<Rightarrow> Obstacle list \<Rightarrow> world" where
  "worldWith y v obs =
     exampleWorld\<lparr>game := \<lparr>plane = \<lparr>plane_x = 100, plane_y = y, velocity = v, rotation = 0\<rparr>,
                           obstacles = obs, lastObstacleTime = 0, bgOffset = Some 0\<rparr>\<rparr>"

text \<open>A tick on a canvas of a given size, with given frequency data, at a given time.\<close>

definition envWith :: "nat \<Rightarrow> nat \<Rightarrow> 8 word list \<Rightarrow> int \<Rightarrow> env" where
  "envWith canvas_width canvas_height dataArray t =
     exampleEnv\<lparr>canvas := Some (canvas_width, canvas_height), analyser := Some dataArray,
                now := t\<rparr>"

section \<open>Properties\<close>

subsection \<open>Auxiliary facts about the stages\<close>

lemma filterObstacles_kept:
  "fst (filterObstacles hb px ch obs c cv) = filter stays (map advance obs)"
  by (induction obs arbitrary: c cv)
     (simp_all add: obstacleCallback_def advance_def stays_def Let_def case_prod_unfold)

lemma filterObstacles_flag:
  "fst (snd (filterObstacles hb px ch obs c cv))
     = (c \<or> list_ex (hitsObstacle hb) (map advance obs))"
  by (induction obs arbitrary: c cv)
     (auto simp: obstacleCallback_def advance_def hitsObstacle_def Let_def case_prod_unfold)

lemma gameLoop_executed:
  "canvas e = Some (cw, ch) \<Longrightarrow> analyser e = Some d \<Longrightarrow> ctx2d e \<Longrightarrow>
   gameLoop e w = tickBody e cw ch d (frameRequested w)"
  by (simp add: gameLoop_def requestAnimationFrame_def frameRequested_def Let_def)

lemma frameRequested_game: "game (frameRequested w) = game w"
  by (simp add: frameRequested_def)

lemma collisionStage_plane: "plane (fst (collisionStage ch g cv)) = plane g"
  by (simp add: collisionStage_def Let_def case_prod_unfold)

lemma spawnStage_plane: "plane (spawnStage e cw ch g) = plane g"
  by (simp add: spawnStage_def)

lemma cancelPending_game: "game (cancelPending w) = game w"
  by (simp add: cancelPending_def cancelAnimationFrame_def split: option.splits)

lemma collisionBranch_game: "game (collisionBranch e w) = game w"
  by (simp add: collisionBranch_def Let_def cancelPending_game)

lemma tickBody_plane:
  "d \<noteq> [] \<Longrightarrow>
   plane (game (snd (tickBody e cw ch d w)))
     = flightDynamics ch (sampleVolume d) (plane (game w))"
  by (simp add: tickBody_def Let_def spawnStage_plane collisionBranch_game collisionStage_plane
        case_prod_unfold)

lemma gameLoop_plane:
  "canvas e = Some (cw, ch) \<Longrightarrow> analyser e = Some d \<Longrightarrow> ctx2d e \<Longrightarrow> d \<noteq> [] \<Longrightarrow>
   plane (game (snd (gameLoop e w))) = flightDynamics ch (sampleVolume d) (plane (game w))"
  by (simp add: gameLoop_executed tickBody_plane frameRequested_game)

lemma flightDynamics_spec:
  "flightDynamics ch volume p =
   spec_dynamics (25 / 100) 3 (2 / 10) (97 / 100) 6 20 (real ch) (15 / 100) (1 / 10) volume p"
  by (simp add: flightDynamics_def spec_dynamics_def spec_clamp_def spec_lift_def Let_def)

subsection \<open>C1: the order of the flight dynamics\<close>

text \<open>
  C1. On every executed tick (canvas, context and analyser available, the analyser
  delivering its bins) the plane after the tick is the plane before it taken through the
  six steps of the specification in their order, with gravity 0.25, lift threshold 3,
  lift gain 0.2, damping 0.97 (which is below 1), \<open>Vmax\<close> 6, half height 20, the canvas
  height as surface height, rotation gain 0.15 and smoothing 0.1; the volume is the one
  sampled on this tick. For every volume at or below the threshold the lift is exactly 0.
\<close>

theorem flight_dynamics_order:
  assumes "canvas e = Some (cw, ch)" and "analyser e = Some d" and "ctx2d e" and "d \<noteq> []"
  shows "plane (game (snd (gameLoop e w)))
           = spec_dynamics (25 / 100) 3 (2 / 10) (97 / 100) 6 20 (real ch) (15 / 100) (1 / 10)
               (sampleVolume d) (plane (game w))
         \<and> (97 / 100 :: real) < 1
         \<and> (\<forall>volume \<le> 3. spec_lift 3 (2 / 10) volume = 0)"
proof -
  have "plane (game (snd (gameLoop e w))) = flightDynamics ch (sampleVolume d) (plane (game w))"
    using assms by (rule gameLoop_plane)
  moreover have "\<forall>volume \<le> 3. spec_lift 3 (2 / 10) volume = 0"
    by (simp add: spec_lift_def max_def mult_le_0_iff)
  ultimately show ?thesis
    by (simp add: flightDynamics_spec)
qed

text \<open>
  The scenario of the specification: surface height 600, the plane at 300 with velocity
  0, one silent tick. The velocity becomes 0.25 * 0.97 = 0.2425, the position 300.2425.
\<close>

theorem flight_dynamics_order_witness:
  "plane (game (snd (gameLoop exampleEnv exampleWorld)))
     = \<lparr>plane_x = 100, plane_y = 300 + 2425 / 10000, velocity = 2425 / 10000,
        rotation = 36375 / 10000000\<rparr>
   \<and> sampleVolume [0, 0, 0, 0] = 0 \<and> spec_lift 3 (2 / 10) 0 = 0"
  using flight_dynamics_order [of exampleEnv 800 600 "[0, 0, 0, 0]" exampleWorld]
  by (simp add: exampleEnv_def exampleWorld_def spec_dynamics_def spec_clamp_def spec_lift_def
        sampleVolume_def Let_def)

subsection \<open>C2: the position clamp\<close>

lemma flightDynamics_y:
  "20 \<le> plane_y (flightDynamics ch volume p)
   \<and> (40 \<le> ch \<longrightarrow> plane_y (flightDynamics ch volume p) \<le> real ch - 20)
   \<and> (ch < 40 \<longrightarrow> plane_y (flightDynamics ch volume p) = 20)"
  by (simp add: flightDynamics_def Let_def)

text \<open>
  C2 as stated, for every canvas height, fails where the interval is empty: on a canvas
  30 high an executed tick leaves the plane at 20, above the upper bound 30 - 20 = 10
  (\<open>Math.max(20, Math.min(canvas.height - 20, y))\<close> lets the lower bound win).
\<close>

theorem position_clamp_counterexample:
  "plane_y (plane (game (snd (gameLoop (envWith 800 30 [0, 0, 0, 0] 1000) exampleWorld)))) = 20
   \<and> \<not> (20 :: real) \<le> real (30 :: nat) - 20"
  by (simp add: gameLoop_plane [of _ 800 30 "[0, 0, 0, 0]"] envWith_def exampleEnv_def
        exampleWorld_def flightDynamics_def sampleVolume_def Let_def)

text \<open>
  C2, amended. After every executed tick, from any plane (any position, any velocity)
  and for any volume, the vertical position is at least 20; it is at most the canvas
  height minus 20 when the canvas is at least 40 high, and it is 20 on a lower canvas.
  Since the starting plane is arbitrary, this holds after each tick of any sequence.
\<close>

theorem position_clamp_invariant:
  assumes "canvas e = Some (cw, ch)" and "analyser e = Some d" and "ctx2d e" and "d \<noteq> []"
  shows "20 \<le> plane_y (plane (game (snd (gameLoop e w))))
         \<and> (40 \<le> ch \<longrightarrow> plane_y (plane (game (snd (gameLoop e w)))) \<le> real ch - 20)
         \<and> (ch < 40 \<longrightarrow> plane_y (plane (game (snd (gameLoop e w)))) = 20)"
  using assms flightDynamics_y [of ch "sampleVolume d" "plane (game w)"]
  by (simp add: gameLoop_plane)

theorem position_clamp_invariant_witness:
  "20 \<le> plane_y (plane (game (snd (gameLoop exampleEnv exampleWorld))))
   \<and> plane_y (plane (game (snd (gameLoop exampleEnv exampleWorld)))) \<le> real (600 :: nat) - 20"
  using position_clamp_invariant [of exampleEnv 800 600 "[0, 0, 0, 0]" exampleWorld]
  by (simp add: exampleEnv_def)

subsection \<open>C3: what the collision stage changes\<close>

lemma collisionStage_flag:
  "fst (snd (collisionStage ch g cv)) = detectCollision (plane g) ch (map advance (obstacles g))"
  by (simp add: collisionStage_def detectCollision_def Let_def case_prod_unfold
        filterObstacles_flag)

lemma collisionStage_obstacles:
  "obstacles (fst (collisionStage ch g cv))
     = (if hitsBoundary (planeHitbox (plane g)) ch then obstacles g
        else filter stays (map advance (obstacles g)))"
  by (simp add: collisionStage_def Let_def case_prod_unfold filterObstacles_kept)

lemma collisionStage_rest:
  "lastObstacleTime (fst (collisionStage ch g cv)) = lastObstacleTime g
   \<and> bgOffset (fst (collisionStage ch g cv)) = bgOffset g"
  by (simp add: collisionStage_def Let_def case_prod_unfold)

text \<open>
  C3 as stated fails: the code that decides the collision (lines 653-681) is the
  \<open>filter\<close> pass that also moves the obstacles. With the plane at 190 and an obstacle at
  x = 144, evaluating it changes the game (the obstacle is at 141 afterwards) and finds no
  collision; evaluating it again, on the game it left, finds one.
\<close>

theorem collision_stage_counterexample:
  "fst (collisionStage 600 (game (worldWith 190 0 [exampleObstacle 144])) [])
     \<noteq> game (worldWith 190 0 [exampleObstacle 144])
   \<and> fst (snd (collisionStage 600 (game (worldWith 190 0 [exampleObstacle 144])) [])) = False
   \<and> fst (snd (collisionStage 600
        (fst (collisionStage 600 (game (worldWith 190 0 [exampleObstacle 144])) [])) [])) = True"
  by (simp add: collisionStage_def worldWith_def exampleObstacle_def planeHitbox_def
        hitsBoundary_def obstacleCallback_def Let_def)

text \<open>
  C3, amended. The collision flag is the specification's predicate, a function of the
  plane, the canvas height and the obstacle collection alone, evaluated on the obstacles
  after their advance; computing it changes no field of the plane, nor the spawn clock,
  nor the background offset (and the stage has no access to the score, the high score or
  the running flag). It does change the obstacle collection: unless the boundary check
  fires, every obstacle is moved left by 3 and those no longer right of -50 are removed.
\<close>

theorem collision_stage_effect:
  "fst (snd (collisionStage ch g cv)) = detectCollision (plane g) ch (map advance (obstacles g))
   \<and> plane (fst (collisionStage ch g cv)) = plane g
   \<and> lastObstacleTime (fst (collisionStage ch g cv)) = lastObstacleTime g
   \<and> bgOffset (fst (collisionStage ch g cv)) = bgOffset g
   \<and> obstacles (fst (collisionStage ch g cv))
       = (if hitsBoundary (planeHitbox (plane g)) ch then obstacles g
          else filter (\<lambda>ob. obs_x ob > - 50) (map (\<lambda>ob. ob\<lparr>obs_x := obs_x ob - 3\<rparr>) (obstacles g)))"
proof -
  have "filter stays (map advance (obstacles g))
          = filter (\<lambda>ob. obs_x ob > - 50) (map (\<lambda>ob. ob\<lparr>obs_x := obs_x ob - 3\<rparr>) (obstacles g))"
    by (simp add: stays_def [abs_def] advance_def [abs_def])
  then show ?thesis
    by (simp add: collisionStage_flag collisionStage_plane collisionStage_rest
          collisionStage_obstacles)
qed

theorem collision_stage_effect_witness:
  "fst (snd (collisionStage 600 (game (worldWith 190 0 [exampleObstacle 141])) [])) = True
   \<and> obstacles (fst (collisionStage 600 (game (worldWith 190 0 [exampleObstacle 141])) []))
       = [exampleObstacle 138]"
  using collision_stage_effect [of 600 "game (worldWith 190 0 [exampleObstacle 141])" "[]"]
  by (simp add: worldWith_def exampleObstacle_def exampleWorld_def planeHitbox_def
        hitsBoundary_def detectCollision_def hitsObstacle_def advance_def)

subsection \<open>Auxiliary facts about the whole tick\<close>

lemma cancelPending_gameState: "gameState (cancelPending w) = gameState w"
  by (simp add: cancelPending_def cancelAnimationFrame_def split: option.splits)

lemma cancelPending_painted: "painted (cancelPending w) = painted w"
  by (simp add: cancelPending_def cancelAnimationFrame_def split: option.splits)

lemma collisionBranch_gameState: "gameState (collisionBranch e w) = gameState w"
  by (simp add: collisionBranch_def Let_def cancelPending_gameState)

lemma collisionBranch_painted:
  "painted (collisionBranch e w)
     = painted w
       @ (if explosionImage e
          then [Explosion (plane_x (plane (game w)) - 150 / 2) (plane_y (plane (game w)) - 150 / 2)]
          else [])
       @ [RedFrame]"
  by (simp add: collisionBranch_def Let_def cancelPending_painted)

lemma tickBody_outcome:
  "d \<noteq> [] \<Longrightarrow>
   fst (tickBody e cw ch d w)
     = (if detectCollision (plane (game w)) ch (map advance (obstacles (game w)))
        then Collided else Survived)"
  by (simp add: tickBody_def Let_def case_prod_unfold collisionStage_flag)

lemma tickBody_score:
  "d \<noteq> [] \<Longrightarrow>
   score (gameState (snd (tickBody e cw ch d w)))
     = (if detectCollision (plane (game w)) ch (map advance (obstacles (game w)))
        then score (gameState w) else score (gameState w) + 1)"
  by (simp add: tickBody_def Let_def case_prod_unfold collisionStage_flag
        collisionBranch_gameState)

lemma tickBody_painted:
  "d \<noteq> [] \<Longrightarrow>
   painted (snd (tickBody e cw ch d w))
     = snd (snd (collisionStage ch (game w) [ClearRect, FillBackground]))
       @ [DrawPlane (plane_x (plane (game w))) (plane_y (plane (game w))) (rotation (plane (game w))),
          DrawClouds (scrollBackground cw (bgOffset (game w))),
          DebugText (mathRound (sampleVolume d))]
       @ (if detectCollision (plane (game w)) ch (map advance (obstacles (game w)))
          then (if explosionImage e
                then [Explosion
                        (plane_x (flightDynamics ch (sampleVolume d) (plane (game w))) - 150 / 2)
                        (plane_y (flightDynamics ch (sampleVolume d) (plane (game w))) - 150 / 2)]
                else [])
               @ [RedFrame]
          else [])"
  by (simp add: tickBody_def Let_def case_prod_unfold collisionStage_flag collisionStage_plane
        collisionStage_rest collisionBranch_painted spawnStage_plane)

lemma tickBody_obstacles:
  "d \<noteq> [] \<Longrightarrow>
   obstacles (game (snd (tickBody e cw ch d w)))
     = (if hitsBoundary (planeHitbox (plane (game w))) ch then obstacles (game w)
        else filter stays (map advance (obstacles (game w))))
       @ (if now e - lastObstacleTime (game w) > 2000
          then [newObstacle cw ch (random1 e) (random2 e)] else [])"
  by (simp add: tickBody_def Let_def case_prod_unfold collisionStage_obstacles
        collisionStage_rest collisionBranch_game spawnStage_def)

lemma frameRequested_gameState: "gameState (frameRequested w) = gameState w"
  by (simp add: frameRequested_def)

lemma gameLoop_outcome:
  "canvas e = Some (cw, ch) \<Longrightarrow> analyser e = Some d \<Longrightarrow> ctx2d e \<Longrightarrow> d \<noteq> [] \<Longrightarrow>
   fst (gameLoop e w)
     = (if detectCollision (plane (game w)) ch (map advance (obstacles (game w)))
        then Collided else Survived)"
  by (simp add: gameLoop_executed tickBody_outcome frameRequested_game)

lemma gameLoop_score:
  "canvas e = Some (cw, ch) \<Longrightarrow> analyser e = Some d \<Longrightarrow> ctx2d e \<Longrightarrow> d \<noteq> [] \<Longrightarrow>
   score (gameState (snd (gameLoop e w)))
     = (if detectCollision (plane (game w)) ch (map advance (obstacles (game w)))
        then score (gameState w) else score (gameState w) + 1)"
  by (simp add: gameLoop_executed tickBody_score frameRequested_game frameRequested_gameState)

lemma gameLoop_painted:
  "canvas e = Some (cw, ch) \<Longrightarrow> analyser e = Some d \<Longrightarrow> ctx2d e \<Longrightarrow> d \<noteq> [] \<Longrightarrow>
   painted (snd (gameLoop e w))
     = snd (snd (collisionStage ch (game w) [ClearRect, FillBackground]))
       @ [DrawPlane (plane_x (plane (game w))) (plane_y (plane (game w))) (rotation (plane (game w))),
          DrawClouds (scrollBackground cw (bgOffset (game w))),
          DebugText (mathRound (sampleVolume d))]
       @ (if detectCollision (plane (game w)) ch (map advance (obstacles (game w)))
          then (if explosionImage e
                then [Explosion
                        (plane_x (flightDynamics ch (sampleVolume d) (plane (game w))) - 150 / 2)
                        (plane_y (flightDynamics ch (sampleVolume d) (plane (game w))) - 150 / 2)]
                else [])
               @ [RedFrame]
          else [])"
  by (simp add: gameLoop_executed tickBody_painted frameRequested_game)

lemma gameLoop_obstacles:
  "canvas e = Some (cw, ch) \<Longrightarrow> analyser e = Some d \<Longrightarrow> ctx2d e \<Longrightarrow> d \<noteq> [] \<Longrightarrow>
   obstacles (game (snd (gameLoop e w)))
     = (if hitsBoundary (planeHitbox (plane (game w))) ch then obstacles (game w)
        else filter stays (map advance (obstacles (game w))))
       @ (if now e - lastObstacleTime (game w) > 2000
          then [newObstacle cw ch (random1 e) (random2 e)] else [])"
  by (simp add: gameLoop_executed tickBody_obstacles frameRequested_game)

subsection \<open>C4: the order of the stages\<close>

text \<open>
  C4 as stated fails: the collision is decided before the dynamics run. With the plane
  at 21, rising at 6 per tick under a loud signal, the tick decides "no collision" and
  adds to the score, although the position its own dynamics produce, 20, is one at which
  the detector, applied to the plane and obstacles the tick leaves, reports a collision.
\<close>

theorem collision_decision_counterexample:
  "fst (gameLoop (envWith 800 600 [255, 255, 255, 255] 1000) (worldWith 21 (- 6) [])) = Survived
   \<and> plane_y (plane (game (snd (gameLoop (envWith 800 600 [255, 255, 255, 255] 1000)
        (worldWith 21 (- 6) []))))) = 20
   \<and> detectCollision
        (plane (game (snd (gameLoop (envWith 800 600 [255, 255, 255, 255] 1000)
           (worldWith 21 (- 6) [])))))
        600
        (obstacles (game (snd (gameLoop (envWith 800 600 [255, 255, 255, 255] 1000)
           (worldWith 21 (- 6) [])))))"
  by (simp add: gameLoop_outcome [of _ 800 600 "[255, 255, 255, 255]"]
        gameLoop_plane [of _ 800 600 "[255, 255, 255, 255]"]
        envWith_def exampleEnv_def worldWith_def exampleWorld_def detectCollision_def
        hitsBoundary_def planeHitbox_def flightDynamics_def sampleVolume_def Let_def)

text \<open>
  C4, amended. In an executed tick the stages run in the order boundary check, obstacle
  pass (advance, draw and collision test of each obstacle), plane drawn, volume sampled,
  flight dynamics, clouds, spawn, debug text, then the collision branch or the score. So
  the collision decision is the detector on the plane as the previous tick left it and on
  the obstacles after this tick's advance; the plane is drawn where the previous tick
  left it; the dynamics then move it with this tick's volume; only the explosion of a
  collision tick is drawn at the new position.
\<close>

theorem collision_decided_before_dynamics:
  assumes "canvas e = Some (cw, ch)" and "analyser e = Some d" and "ctx2d e" and "d \<noteq> []"
  shows "fst (gameLoop e w)
           = (if detectCollision (plane (game w)) ch (map advance (obstacles (game w)))
              then Collided else Survived)
         \<and> plane (game (snd (gameLoop e w)))
             = flightDynamics ch (sampleVolume d) (plane (game w))
         \<and> painted (snd (gameLoop e w))
             = snd (snd (collisionStage ch (game w) [ClearRect, FillBackground]))
               @ [DrawPlane (plane_x (plane (game w))) (plane_y (plane (game w)))
                    (rotation (plane (game w))),
                  DrawClouds (scrollBackground cw (bgOffset (game w))),
                  DebugText (mathRound (sampleVolume d))]
               @ (if detectCollision (plane (game w)) ch (map advance (obstacles (game w)))
                  then (if explosionImage e
                        then [Explosion
                                (plane_x (flightDynamics ch (sampleVolume d) (plane (game w))) - 150 / 2)
                                (plane_y (flightDynamics ch (sampleVolume d) (plane (game w))) - 150 / 2)]
                        else [])
                       @ [RedFrame]
                  else [])"
  using assms by (simp add: gameLoop_outcome gameLoop_plane gameLoop_painted)

theorem collision_decided_before_dynamics_witness:
  "fst (gameLoop (envWith 800 600 [0, 0, 0, 0] 1000) (worldWith 190 0 [exampleObstacle 141]))
     = Collided
   \<and> painted (snd (gameLoop (envWith 800 600 [0, 0, 0, 0] 1000)
        (worldWith 190 0 [exampleObstacle 141])))
     = [ClearRect, FillBackground, DrawBuilding 138 175 250 600, CollisionPoint 100 170,
        DrawPlane 100 190 0, DrawClouds (Some 2), DebugText 0,
        Explosion 25 (190 + 2425 / 10000 - 75), RedFrame]"
  using collision_decided_before_dynamics
          [of "envWith 800 600 [0, 0, 0, 0] 1000" 800 600 "[0, 0, 0, 0]"
              "worldWith 190 0 [exampleObstacle 141]"]
  by (simp add: envWith_def exampleEnv_def worldWith_def exampleWorld_def exampleObstacle_def
        detectCollision_def hitsBoundary_def hitsObstacle_def planeHitbox_def advance_def
        collisionStage_def obstacleCallback_def flightDynamics_def sampleVolume_def
        scrollBackground_def mathRound_def Let_def)

subsection \<open>C5: the score\<close>

text \<open>
  C5. On every executed tick the outcome is decided by the collision flag, and the score
  after the tick is the score before it plus exactly 1 when there was no collision, and
  the score before it, unchanged, when there was one.
\<close>

theorem score_per_surviving_tick:
  assumes "canvas e = Some (cw, ch)" and "analyser e = Some d" and "ctx2d e" and "d \<noteq> []"
  shows "fst (gameLoop e w)
           = (if detectCollision (plane (game w)) ch (map advance (obstacles (game w)))
              then Collided else Survived)
         \<and> score (gameState (snd (gameLoop e w)))
             = (if fst (gameLoop e w) = Collided then score (gameState w)
                else score (gameState w) + 1)"
  using assms by (simp add: gameLoop_outcome gameLoop_score)

theorem score_per_surviving_tick_witness:
  "fst (gameLoop exampleEnv exampleWorld) = Survived
   \<and> score (gameState (snd (gameLoop exampleEnv exampleWorld))) = 1
   \<and> fst (gameLoop (envWith 800 600 [0, 0, 0, 0] 1000) (worldWith 20 0 [])) = Collided
   \<and> score (gameState (snd (gameLoop (envWith 800 600 [0, 0, 0, 0] 1000) (worldWith 20 0 [])))) = 0"
  using score_per_surviving_tick [of exampleEnv 800 600 "[0, 0, 0, 0]" exampleWorld]
        score_per_surviving_tick [of "envWith 800 600 [0, 0, 0, 0] 1000" 800 600 "[0, 0, 0, 0]"
              "worldWith 20 0 []"]
  by (simp add: envWith_def exampleEnv_def worldWith_def exampleWorld_def
        detectCollision_def hitsBoundary_def planeHitbox_def)

subsection \<open>C6: the gap of a spawned obstacle\<close>

lemma newObstacle_margins:
  assumes "350 \<le> ch" and "0 \<le> r1" and "r1 < 1"
  shows "gapWithinMargins ch (newObstacle cw ch r1 r2)"
proof -
  have h: "0 \<le> real ch - 350" using assms(1) by simp
  have lo: "0 \<le> r1 * (real ch - 350)" using assms(2) h by simp
  have "r1 * (real ch - 350) \<le> 1 * (real ch - 350)"
    using assms(3) h by (intro mult_right_mono) simp_all
  then have hi: "r1 * (real ch - 350) \<le> real ch - 350" by simp
  show ?thesis
    using lo hi by (simp add: gapWithinMargins_def newObstacle_def Let_def)
qed

lemma advance_margins: "gapWithinMargins ch (advance ob) = gapWithinMargins ch ob"
  by (simp add: gapWithinMargins_def advance_def)

lemma kept_margins:
  "list_all (gapWithinMargins ch) obs \<Longrightarrow>
   list_all (gapWithinMargins ch) (filter stays (map advance obs))"
  by (induction obs) (simp_all add: advance_margins)

lemma collisionStage_margins:
  "list_all (gapWithinMargins ch) (obstacles g) \<Longrightarrow>
   list_all (gapWithinMargins ch) (obstacles (fst (collisionStage ch' g cv)))"
  by (simp add: collisionStage_obstacles kept_margins)

lemma spawnStage_margins:
  "350 \<le> ch \<Longrightarrow> 0 \<le> random1 e \<Longrightarrow> random1 e < 1 \<Longrightarrow>
   list_all (gapWithinMargins ch) (obstacles g) \<Longrightarrow>
   list_all (gapWithinMargins ch) (obstacles (spawnStage e cw ch g))"
  by (simp add: spawnStage_def newObstacle_margins)

lemma tickBody_margins:
  assumes "350 \<le> ch" and "0 \<le> random1 e" and "random1 e < 1"
    and "list_all (gapWithinMargins ch) (obstacles (game w))"
  shows "list_all (gapWithinMargins ch) (obstacles (game (snd (tickBody e cw ch d w))))"
proof (cases "d = []")
  case True
  then show ?thesis
    using assms(4) by (simp add: tickBody_def Let_def case_prod_unfold collisionStage_margins)
next
  case False
  have "list_all (gapWithinMargins ch)
          (if hitsBoundary (planeHitbox (plane (game w))) ch then obstacles (game w)
           else filter stays (map advance (obstacles (game w))))"
    using assms(4) by (simp add: kept_margins)
  then show ?thesis
    using False assms(1-3) by (simp add: tickBody_obstacles newObstacle_margins)
qed

lemma gameLoop_margins:
  assumes "350 \<le> ch" and "0 \<le> random1 e" and "random1 e < 1"
    and "canvas e = Some (cw, ch)"
    and "list_all (gapWithinMargins ch) (obstacles (game w))"
  shows "list_all (gapWithinMargins ch) (obstacles (game (snd (gameLoop e w))))"
proof -
  have "list_all (gapWithinMargins ch) (obstacles (game (frameRequested w)))"
    using assms(5) by (simp add: frameRequested_game)
  then have "list_all (gapWithinMargins ch)
               (obstacles (game (snd (tickBody e cw ch d (frameRequested w)))))" for d
    using assms(1-3) by (simp add: tickBody_margins)
  then show ?thesis
    using assms(4,5)
    by (simp add: gameLoop_def requestAnimationFrame_def frameRequested_def Let_def
          split: option.splits)
qed

lemma startGame_obstacles:
  "canvas e = Some (cw, ch) \<Longrightarrow>
   obstacles (game (startGame m e w))
     = (if analyser e = None \<and> \<not> m then obstacles (game w)
        else [newObstacle cw ch (random1 e) (random2 e)])"
  by (simp add: startGame_def requestAnimationFrame_def cancelAnimationFrame_def Let_def
        split: option.splits)

text \<open>
  C6 as stated, for every canvas height, fails: the canvas follows its container, and on
  a canvas 300 high (a phone held sideways) with \<open>Math.random()\<close> giving 1/2 the gap of
  the obstacle pushed by \<open>startGame\<close>, and of the one pushed by the loop, starts at 25,
  inside the top margin of 50. A gap of 250 with two margins of 50 needs a height of 350.
\<close>

theorem spawned_gap_counterexample:
  "map gapY (obstacles (game (startGame False (envWith 400 300 [0, 0, 0, 0] 1000) exampleWorld)))
     = [25]
   \<and> map gapY (obstacles (game (snd (gameLoop (envWith 400 300 [0, 0, 0, 0] 5000)
        (worldWith 150 0 []))))) = [25]
   \<and> (25 :: real) < 50"
  by (simp add: startGame_obstacles [of _ 400 300] gameLoop_obstacles [of _ 400 300 "[0, 0, 0, 0]"]
        envWith_def exampleEnv_def worldWith_def exampleWorld_def newObstacle_def
        hitsBoundary_def planeHitbox_def Let_def)

text \<open>
  C6, amended. On a canvas at least 350 high, with \<open>Math.random()\<close> in [0, 1), the
  obstacle created at either spawn site has \<open>gapY \<ge> 50\<close>,
  \<open>gapY + gapHeight \<le> canvas.height - 50\<close> and \<open>gapHeight = 250\<close>; and when every
  obstacle of the collection satisfies the two bounds, so does every obstacle of the
  collection after \<open>startGame\<close> and after any call of \<open>gameLoop\<close>.
\<close>

theorem spawned_gap_within_margins:
  assumes "350 \<le> ch" and "0 \<le> random1 e" and "random1 e < 1"
    and "canvas e = Some (cw, ch)"
    and "list_all (gapWithinMargins ch) (obstacles (game w))"
  shows "gapWithinMargins ch (newObstacle cw ch (random1 e) (random2 e))
         \<and> gapHeight (newObstacle cw ch (random1 e) (random2 e)) = 250
         \<and> list_all (gapWithinMargins ch) (obstacles (game (startGame m e w)))
         \<and> list_all (gapWithinMargins ch) (obstacles (game (snd (gameLoop e w))))"
proof -
  have new: "gapWithinMargins ch (newObstacle cw ch (random1 e) (random2 e))"
    using assms(1-3) by (rule newObstacle_margins)
  have start: "list_all (gapWithinMargins ch) (obstacles (game (startGame m e w)))"
    using assms(4,5) new by (simp add: startGame_obstacles)
  have loop: "list_all (gapWithinMargins ch) (obstacles (game (snd (gameLoop e w))))"
    using assms by (rule gameLoop_margins)
  show ?thesis
    using new start loop by (simp add: newObstacle_def Let_def)
qed

theorem spawned_gap_within_margins_witness:
  "obstacles (game (startGame False (envWith 800 600 [0, 0, 0, 0] 5000)
      (worldWith 300 0 [exampleObstacle 400])))
     = [exampleObstacle 800]
   \<and> obstacles (game (snd (gameLoop (envWith 800 600 [0, 0, 0, 0] 5000)
        (worldWith 300 0 [exampleObstacle 400]))))
     = [exampleObstacle 397, exampleObstacle 800]
   \<and> gapWithinMargins 600 (exampleObstacle 397) \<and> gapWithinMargins 600 (exampleObstacle 800)"
  using spawned_gap_within_margins
          [of 600 "envWith 800 600 [0, 0, 0, 0] 5000" 800 "worldWith 300 0 [exampleObstacle 400]"
              False]
  by (simp add: startGame_obstacles [of _ 800 600]
        gameLoop_obstacles [of _ 800 600 "[0, 0, 0, 0]"]
        envWith_def exampleEnv_def worldWith_def exampleWorld_def exampleObstacle_def
        newObstacle_def generateBuilding_def hitsBoundary_def planeHitbox_def
        gapWithinMargins_def stays_def advance_def Let_def)

subsection \<open>C7: advance and removal of obstacles\<close>

text \<open>
  C7 as stated fails twice. On a tick without boundary collision an obstacle at -47 is
  at -50 after the decrement and is removed, though -50 is not below -50: the filter
  keeps \<open>obstacle.x > -50\<close> only. And on a tick whose boundary check fires (the plane at
  20) the obstacle at 400 is still at 400 afterwards.
\<close>

theorem obstacle_removal_counterexample:
  "\<not> hitsBoundary (planeHitbox (plane (game (worldWith 300 0 [exampleObstacle (- 47)])))) 600
   \<and> obstacles (game (snd (gameLoop (envWith 800 600 [0, 0, 0, 0] 1000)
        (worldWith 300 0 [exampleObstacle (- 47)])))) = []
   \<and> \<not> (- 47 - 3 :: real) < - 50
   \<and> obstacles (game (snd (gameLoop (envWith 800 600 [0, 0, 0, 0] 1000)
        (worldWith 20 0 [exampleObstacle 400])))) = [exampleObstacle 400]"
  by (simp add: gameLoop_obstacles [of _ 800 600 "[0, 0, 0, 0]"]
        envWith_def exampleEnv_def worldWith_def exampleWorld_def exampleObstacle_def
        hitsBoundary_def planeHitbox_def stays_def advance_def)

text \<open>
  C7, amended. On every executed tick whose boundary check does not fire, the collection
  after the tick is the collection before it with every obstacle moved left by 3, then
  filtered in order by \<open>x > -50\<close> (an obstacle is removed if and only if its position
  after the decrement is at most -50; the others keep their order), followed by the
  obstacle spawned on this tick, if any.
\<close>

theorem obstacle_advance_and_removal:
  assumes "canvas e = Some (cw, ch)" and "analyser e = Some d" and "ctx2d e" and "d \<noteq> []"
    and "\<not> hitsBoundary (planeHitbox (plane (game w))) ch"
  shows "obstacles (game (snd (gameLoop e w)))
           = filter (\<lambda>ob. obs_x ob > - 50)
               (map (\<lambda>ob. ob\<lparr>obs_x := obs_x ob - 3\<rparr>) (obstacles (game w)))
             @ (if now e - lastObstacleTime (game w) > 2000
                then [newObstacle cw ch (random1 e) (random2 e)] else [])"
  using assms
  by (simp add: gameLoop_obstacles stays_def [abs_def] advance_def [abs_def])

theorem obstacle_advance_and_removal_witness:
  "obstacles (game (snd (gameLoop (envWith 800 600 [0, 0, 0, 0] 1000)
      (worldWith 300 0 [exampleObstacle (- 47), exampleObstacle (- 46), exampleObstacle 400]))))
     = [exampleObstacle (- 49), exampleObstacle 397]"
  using obstacle_advance_and_removal
          [of "envWith 800 600 [0, 0, 0, 0] 1000" 800 600 "[0, 0, 0, 0]"
              "worldWith 300 0 [exampleObstacle (- 47), exampleObstacle (- 46), exampleObstacle 400]"]
  by (simp add: envWith_def exampleEnv_def worldWith_def exampleWorld_def exampleObstacle_def
        hitsBoundary_def planeHitbox_def)

subsection \<open>C10: the tick of a boundary collision\<close>

text \<open>
  C10 as stated fails: the spawn is not guarded by the collision flag. On a tick whose
  boundary check fires, five seconds after the last spawn, the collection gains an
  obstacle.
\<close>

theorem boundary_tick_counterexample:
  "hitsBoundary (planeHitbox (plane (game (worldWith 20 0 [exampleObstacle 400])))) 600
   \<and> obstacles (game (worldWith 20 0 [exampleObstacle 400])) = [exampleObstacle 400]
   \<and> obstacles (game (snd (gameLoop (envWith 800 600 [0, 0, 0, 0] 5000)
        (worldWith 20 0 [exampleObstacle 400]))))
     = [exampleObstacle 400, exampleObstacle 800]"
  by (simp add: gameLoop_obstacles [of _ 800 600 "[0, 0, 0, 0]"]
        envWith_def exampleEnv_def worldWith_def exampleWorld_def exampleObstacle_def
        hitsBoundary_def planeHitbox_def newObstacle_def generateBuilding_def Let_def)

lemma collisionStage_boundary_painted:
  "hitsBoundary (planeHitbox (plane g)) ch \<Longrightarrow>
   snd (snd (collisionStage ch g cv))
     = cv @ [CollisionPoint (plane_x (plane g))
               (if plane_y (plane g) - 20 \<le> 0 then plane_y (plane g) - 20
                else plane_y (plane g) - 20 + 40)]"
  by (simp add: collisionStage_def Let_def planeHitbox_def)

text \<open>
  C10, amended. On an executed tick whose boundary check fires, the tick ends in the
  collision branch; no obstacle of the collection is advanced or removed, the collection
  after the tick being the one before it followed by the obstacle spawned on this tick,
  if the spawn is due; and no obstacle is drawn: what is painted is the background, the
  red mark, the plane, the clouds, the debug text, the explosion and the red frame.
\<close>

theorem boundary_tick_leaves_obstacles:
  assumes "canvas e = Some (cw, ch)" and "analyser e = Some d" and "ctx2d e" and "d \<noteq> []"
    and "hitsBoundary (planeHitbox (plane (game w))) ch"
  shows "fst (gameLoop e w) = Collided
         \<and> obstacles (game (snd (gameLoop e w)))
             = obstacles (game w)
               @ (if now e - lastObstacleTime (game w) > 2000
                  then [newObstacle cw ch (random1 e) (random2 e)] else [])
         \<and> painted (snd (gameLoop e w))
             = [ClearRect, FillBackground,
                CollisionPoint (plane_x (plane (game w)))
                  (if plane_y (plane (game w)) - 20 \<le> 0 then plane_y (plane (game w)) - 20
                   else plane_y (plane (game w)) - 20 + 40),
                DrawPlane (plane_x (plane (game w))) (plane_y (plane (game w)))
                  (rotation (plane (game w))),
                DrawClouds (scrollBackground cw (bgOffset (game w))),
                DebugText (mathRound (sampleVolume d))]
               @ (if explosionImage e
                  then [Explosion
                          (plane_x (flightDynamics ch (sampleVolume d) (plane (game w))) - 150 / 2)
                          (plane_y (flightDynamics ch (sampleVolume d) (plane (game w))) - 150 / 2)]
                  else [])
               @ [RedFrame]"
  using assms
  by (simp add: gameLoop_outcome gameLoop_obstacles gameLoop_painted
        collisionStage_boundary_painted detectCollision_def)

theorem boundary_tick_leaves_obstacles_witness:
  "fst (gameLoop (envWith 800 600 [0, 0, 0, 0] 1000) (worldWith 20 0 [exampleObstacle 400]))
     = Collided
   \<and> obstacles (game (snd (gameLoop (envWith 800 600 [0, 0, 0, 0] 1000)
        (worldWith 20 0 [exampleObstacle 400])))) = [exampleObstacle 400]"
  using boundary_tick_leaves_obstacles
          [of "envWith 800 600 [0, 0, 0, 0] 1000" 800 600 "[0, 0, 0, 0]"
              "worldWith 20 0 [exampleObstacle 400]"]
  by (simp add: envWith_def exampleEnv_def worldWith_def exampleWorld_def exampleObstacle_def
        hitsBoundary_def planeHitbox_def)

subsection \<open>C8: stopping the scheduler\<close>

lemma tickBody_collided:
  assumes "d \<noteq> []" and "fst (tickBody e cw ch d w) = Collided"
  shows "animationFrameRef (snd (tickBody e cw ch d w))
           = (case animationFrameRef w of None \<Rightarrow> None | Some h \<Rightarrow> if h = 0 then Some h else None)
         \<and> rafCallbacks (snd (tickBody e cw ch d w))
           = (case animationFrameRef w of None \<Rightarrow> rafCallbacks w
              | Some h \<Rightarrow> if h = 0 then rafCallbacks w else removeAll h (rafCallbacks w))
         \<and> audio (snd (tickBody e cw ch d w)) = audio w
         \<and> gameOverTimers (snd (tickBody e cw ch d w)) = gameOverTimers w + 1
         \<and> gameState (snd (tickBody e cw ch d w)) = gameState w"
  using assms
  by (simp add: tickBody_def Let_def case_prod_unfold collisionBranch_def cancelPending_def
        cancelAnimationFrame_def split: if_splits option.splits)

lemma gameLoop_collided:
  assumes "canvas e = Some (cw, ch)" and "analyser e = Some d" and "ctx2d e" and "d \<noteq> []"
    and "fst (gameLoop e w) = Collided"
  shows "animationFrameRef (snd (gameLoop e w)) = None
         \<and> rafCallbacks (snd (gameLoop e w)) = removeAll (rafCounter w + 1) (rafCallbacks w)
         \<and> audio (snd (gameLoop e w)) = audio w
         \<and> gameOverTimers (snd (gameLoop e w)) = gameOverTimers w + 1
         \<and> gameState (snd (gameLoop e w)) = gameState w"
proof -
  have eq: "gameLoop e w = tickBody e cw ch d (frameRequested w)"
    using assms(1-3) by (rule gameLoop_executed)
  have "fst (tickBody e cw ch d (frameRequested w)) = Collided"
    using assms(5) by (simp add: eq)
  from tickBody_collided [OF assms(4) this] show ?thesis
    by (simp add: eq frameRequested_def)
qed

lemma gameOver_frames:
  "animationFrameRef w = None \<Longrightarrow>
   rafCallbacks (gameOverTimeout w) = rafCallbacks w
   \<and> audio (gameOverTimeout w) = audio w
   \<and> \<not> isPlaying (gameState (gameOverTimeout w))
   \<and> score (gameState (gameOverTimeout w)) = score (gameState w)
   \<and> highScore (gameState (gameOverTimeout w))
       = max (highScore (gameState w)) (score (gameState w))"
  by (simp add: gameOverTimeout_def gameOver_def cancelPending_def Let_def)

lemma audioCleanup_cancels:
  "animationFrameRef w = Some h \<Longrightarrow> h \<noteq> 0 \<Longrightarrow>
   rafCallbacks (audioCleanup cs cc w) = removeAll h (rafCallbacks w)"
  by (simp add: audioCleanup_def cancelAnimationFrame_def Let_def)

text \<open>
  C8 as stated fails on a collision: the collision branch and \<open>gameOver\<close> cancel the
  pending frame but never touch the media stream or the audio context. After a collision
  tick, and after the \<open>gameOver\<close> it schedules, the tracks are not stopped and the
  context is not closed.
\<close>

theorem scheduler_stop_counterexample:
  "fst (gameLoop (envWith 800 600 [0, 0, 0, 0] 1000) (worldWith 20 0 [])) = Collided
   \<and> audio (snd (gameLoop (envWith 800 600 [0, 0, 0, 0] 1000) (worldWith 20 0 [])))
     = Some \<lparr>tracksStopped = False, contextClosed = False\<rparr>
   \<and> audio (gameOverTimeout (snd (gameLoop (envWith 800 600 [0, 0, 0, 0] 1000)
        (worldWith 20 0 []))))
     = Some \<lparr>tracksStopped = False, contextClosed = False\<rparr>"
proof -
  let ?e = "envWith 800 600 [0, 0, 0, 0] 1000"
  let ?w = "worldWith 20 0 []"
  have ex: "canvas ?e = Some (800, 600)" "analyser ?e = Some [0, 0, 0, 0]" "ctx2d ?e"
    by (simp_all add: envWith_def exampleEnv_def)
  have c: "fst (gameLoop ?e ?w) = Collided"
    using ex by (simp add: gameLoop_outcome [of _ 800 600 "[0, 0, 0, 0]"] worldWith_def
          detectCollision_def hitsBoundary_def planeHitbox_def)
  have g: "animationFrameRef (snd (gameLoop ?e ?w)) = None
           \<and> audio (snd (gameLoop ?e ?w)) = audio ?w"
    using gameLoop_collided [OF ex _ c] by simp
  have "audio ?w = Some \<lparr>tracksStopped = False, contextClosed = False\<rparr>"
    by (simp add: worldWith_def exampleWorld_def)
  then show ?thesis
    using c g gameOver_frames [of "snd (gameLoop ?e ?w)"] by simp
qed

text \<open>
  C8, amended. When the scheduler stops on a collision (the tick having been run from the
  only pending frame), the frame that tick requested is cancelled and
  \<open>animationFrameRef\<close> is cleared, so nothing is pending and no further tick runs,
  neither before nor after the delayed \<open>gameOver\<close>, which marks the game as not running;
  the audio pipeline is left as it was, for the next game. On teardown the cleanup of the
  audio effect cancels the pending frame, so no further tick runs.
\<close>

theorem scheduler_stop_on_collision:
  assumes "canvas e = Some (cw, ch)" and "analyser e = Some d" and "ctx2d e" and "d \<noteq> []"
    and "fst (gameLoop e w) = Collided"
    and "rafCallbacks w = []"
  shows "animationFrameRef (snd (gameLoop e w)) = None
         \<and> rafCallbacks (snd (gameLoop e w)) = []
         \<and> runFrame e' (snd (gameLoop e w)) = None
         \<and> runFrame e' (gameOverTimeout (snd (gameLoop e w))) = None
         \<and> \<not> isPlaying (gameState (gameOverTimeout (snd (gameLoop e w))))
         \<and> audio (snd (gameLoop e w)) = audio w
         \<and> audio (gameOverTimeout (snd (gameLoop e w))) = audio w
         \<and> (animationFrameRef wu = Some h \<and> h \<noteq> 0 \<and> rafCallbacks wu = [h]
               \<longrightarrow> runFrame e' (audioCleanup capturedStream capturedContext wu) = None)"
proof -
  have g: "animationFrameRef (snd (gameLoop e w)) = None
           \<and> rafCallbacks (snd (gameLoop e w)) = []
           \<and> audio (snd (gameLoop e w)) = audio w"
    using gameLoop_collided [OF assms(1-5)] assms(6) by simp
  then have t: "rafCallbacks (gameOverTimeout (snd (gameLoop e w))) = []
           \<and> audio (gameOverTimeout (snd (gameLoop e w))) = audio w
           \<and> \<not> isPlaying (gameState (gameOverTimeout (snd (gameLoop e w))))"
    using gameOver_frames [of "snd (gameLoop e w)"] by simp
  have u: "animationFrameRef wu = Some h \<and> h \<noteq> 0 \<and> rafCallbacks wu = [h]
               \<longrightarrow> runFrame e' (audioCleanup capturedStream capturedContext wu) = None"
    by (simp add: runFrame_def audioCleanup_cancels)
  show ?thesis
    using g t u by (simp add: runFrame_def)
qed

theorem scheduler_stop_on_collision_witness:
  "fst (gameLoop (envWith 800 600 [0, 0, 0, 0] 1000) (worldWith 20 0 [exampleObstacle 400]))
     = Collided
   \<and> rafCallbacks (snd (gameLoop (envWith 800 600 [0, 0, 0, 0] 1000)
        (worldWith 20 0 [exampleObstacle 400]))) = []
   \<and> runFrame exampleEnv (snd (gameLoop (envWith 800 600 [0, 0, 0, 0] 1000)
        (worldWith 20 0 [exampleObstacle 400]))) = None
   \<and> runFrame exampleEnv
        (audioCleanup False False (exampleWorld\<lparr>animationFrameRef := Some 2, rafCallbacks := [2]\<rparr>))
     = None"
proof -
  let ?e = "envWith 800 600 [0, 0, 0, 0] 1000"
  let ?w = "worldWith 20 0 [exampleObstacle 400]"
  have ex: "canvas ?e = Some (800, 600)" "analyser ?e = Some [0, 0, 0, 0]" "ctx2d ?e"
    by (simp_all add: envWith_def exampleEnv_def)
  have c: "fst (gameLoop ?e ?w) = Collided"
    using ex by (simp add: gameLoop_outcome [of _ 800 600 "[0, 0, 0, 0]"] worldWith_def
          detectCollision_def hitsBoundary_def planeHitbox_def)
  have r: "rafCallbacks ?w = []"
    by (simp add: worldWith_def exampleWorld_def)
  show ?thesis
    using scheduler_stop_on_collision [OF ex _ c r, where e' = exampleEnv and h = 2
            and wu = "exampleWorld\<lparr>animationFrameRef := Some 2, rafCallbacks := [2]\<rparr>"
            and capturedStream = False and capturedContext = False] c
    by simp
qed

subsection \<open>C9: a clamp bound is a collision\<close>







end
